theory Spec2Isabelle
  imports Main "HOL-Library.AList"
begin

section \<open>Python values used by the documentation cog\<close>

text \<open>
  The exceptions that the modelled code of \<^verbatim>\<open>bot/exts/info/doc/_cog.py\<close> can raise.
\<close>

datatype error = IndexError | KeyError | ValueError | InvalidStateError | RuntimeError

text \<open>What a call does: it returns a value or it raises.\<close>

datatype 'a outcome = Returns 'a | Raises error

text \<open>\<^verbatim>\<open>s.split(sep)\<close> for a one-character separator: one more part than separators.\<close>

fun str_split :: "char \<Rightarrow> string \<Rightarrow> string list" where
  "str_split sep [] = [[]]"
| "str_split sep (c # cs) =
     (if c = sep then [] # str_split sep cs
      else (case str_split sep cs of
              [] \<Rightarrow> [[c]]
            | part # parts \<Rightarrow> (c # part) # parts))"

text \<open>\<^verbatim>\<open>s.partition(sep)\<close>: the text before the first separator, the separator
  if there is one, and the text after it.\<close>

definition str_partition :: "char \<Rightarrow> string \<Rightarrow> string \<times> string \<times> string" where
  "str_partition sep s =
     (takeWhile (\<lambda>c. c \<noteq> sep) s,
      (if sep \<in> set s then [sep] else []),
      drop 1 (dropWhile (\<lambda>c. c \<noteq> sep) s))"

text \<open>\<^verbatim>\<open>xs[i]\<close> for a non-negative index: IndexError out of range.\<close>

definition subscript :: "'a list \<Rightarrow> nat \<Rightarrow> error + 'a" where
  "subscript xs i = (if i < length xs then Inr (xs ! i) else Inl IndexError)"

section \<open>DocItem\<close>

record DocItem =
  package :: string
  group :: string
  base_url :: string
  relative_url_path :: string
  symbol_id :: string

definition url :: "DocItem \<Rightarrow> string" where
  "url doc_item = base_url doc_item @ relative_url_path doc_item"

definition FORCE_PREFIX_GROUPS :: "string list" where
  "FORCE_PREFIX_GROUPS = [''2to3fixer'', ''token'', ''label'', ''pdbcommand'', ''term'']"

definition PRIORITY_PACKAGES :: "string list" where
  "PRIORITY_PACKAGES = [''python'']"

section \<open>CachedParser\<close>

text \<open>
  The page text stands for the BeautifulSoup object built from it, and markdown is text.
\<close>

type_synonym soup = string
type_synonym markdown = string

text \<open>An asyncio future of \<^verbatim>\<open>_item_futures\<close>: pending, or holding its result.\<close>

datatype future = Pending | Resolved markdown

text \<open>
  The task running \<^verbatim>\<open>_parse_queue\<close> is suspended at one of its awaits, has not run
  yet, or is over. \<^verbatim>\<open>must_cancel\<close> is set by \<^verbatim>\<open>Task.cancel()\<close> and read when the
  task is resumed.
\<close>

datatype worker_pc = NotStarted | AwaitCacheSet DocItem markdown | AwaitSleep | Finished

record task =
  pc :: worker_pc
  must_cancel :: bool

text \<open>
  The fields of \<^verbatim>\<open>CachedParser\<close>. \<^verbatim>\<open>_queue\<close> is a Python list: \<^verbatim>\<open>append\<close> adds at the
  end and \<^verbatim>\<open>pop()\<close> takes from the end. \<^verbatim>\<open>_page_symbols\<close> maps a page URL to a list
  object; \<^verbatim>\<open>get_markdown\<close> keeps a reference to that object while it awaits the page,
  and \<^verbatim>\<open>add_item\<close> appends to it in place, so the lists live in a store
  (\<open>list_store\<close>) and the dict holds their addresses. \<^verbatim>\<open>_item_futures\<close> is a dict in
  insertion order. The last two fields record the calls made to the collaborators
  that are not part of this file: the pages requested from the HTTP session and the
  items handed to \<^verbatim>\<open>get_symbol_markdown\<close>.
\<close>

record parser =
  queue :: "(DocItem \<times> soup) list"
  page_symbols :: "string \<rightharpoonup> nat"
  list_store :: "nat \<Rightarrow> DocItem list"
  next_list :: nat
  item_futures :: "(DocItem \<times> future) list"
  parse_task :: "task option"
  http_requests :: "string list"
  extractor_calls :: "DocItem list"

definition init_parser :: parser where
  "init_parser =
     \<lparr>queue = [], page_symbols = Map.empty, list_store = (\<lambda>_. []), next_list = 0,
      item_futures = [], parse_task = None, http_requests = [], extractor_calls = []\<rparr>"

text \<open>\<^verbatim>\<open>add_item\<close>: \<^verbatim>\<open>self._page_symbols[doc_item.url].append(doc_item)\<close> on a
  defaultdict, which makes a new list for a missing key.\<close>

definition add_item :: "DocItem \<Rightarrow> parser \<Rightarrow> parser" where
  "add_item doc_item p =
     (case page_symbols p (url doc_item) of
        None \<Rightarrow>
          p\<lparr>page_symbols := (page_symbols p)(url doc_item \<mapsto> next_list p),
            list_store := (list_store p)(next_list p := [doc_item]),
            next_list := Suc (next_list p)\<rparr>
      | Some r \<Rightarrow> p\<lparr>list_store := (list_store p)(r := list_store p r @ [doc_item])\<rparr>)"

section \<open>DocCog.update_single\<close>

text \<open>
  The fields of \<^verbatim>\<open>DocCog\<close> that \<^verbatim>\<open>update_single\<close> touches. The scheduler is not
  part of this file: \<open>inventory_scheduler\<close> records the calls of
  \<^verbatim>\<open>schedule_later(delay, task_id, ...)\<close> as pairs of the delay in seconds and the
  task id.
\<close>

record cog =
  base_urls :: "string \<rightharpoonup> string"
  doc_symbols :: "string \<rightharpoonup> DocItem"
  item_fetcher :: parser
  renamed_symbols :: "string set"
  inventory_scheduler :: "(nat \<times> string) list"
  scheduled_inventories :: "string set"

definition init_cog :: cog where
  "init_cog =
     \<lparr>base_urls = Map.empty, doc_symbols = Map.empty, item_fetcher = init_parser,
      renamed_symbols = {}, inventory_scheduler = [], scheduled_inventories = {}\<rparr>"

text \<open>An inventory as \<^verbatim>\<open>fetch_inventory\<close> returns it: the items of a dict from a group
  to its (symbol, relative URL) pairs, in the dict's order.\<close>

type_synonym inventory = "(string \<times> (string \<times> string) list) list"

text \<open>
  Lines 226 to 245: the name the new symbol is stored under, and the state after the
  renaming of either the new symbol or the one already in \<^verbatim>\<open>doc_symbols\<close>.
\<close>

definition rename_on_collision ::
  "string \<Rightarrow> string \<Rightarrow> string \<Rightarrow> cog \<Rightarrow> string \<times> cog" where
  "rename_on_collision api_package_name group_name symbol s =
     (case doc_symbols s symbol of
        None \<Rightarrow> (symbol, s)
      | Some original_symbol \<Rightarrow>
          if group_name \<in> set FORCE_PREFIX_GROUPS then
            (group_name @ ''.'' @ symbol,
             s\<lparr>renamed_symbols := insert (group_name @ ''.'' @ symbol) (renamed_symbols s)\<rparr>)
          else if group original_symbol \<in> set FORCE_PREFIX_GROUPS then
            (let overridden_symbol = group original_symbol @ ''.'' @ symbol;
                 overridden_symbol =
                   (if overridden_symbol \<in> renamed_symbols s
                    then api_package_name @ ''.'' @ overridden_symbol
                    else overridden_symbol)
             in (symbol,
                 s\<lparr>doc_symbols := (doc_symbols s)(overridden_symbol \<mapsto> original_symbol),
                   renamed_symbols := insert overridden_symbol (renamed_symbols s)\<rparr>))
          else if api_package_name \<in> set PRIORITY_PACKAGES then
            (symbol,
             s\<lparr>doc_symbols :=
                 (doc_symbols s)(package original_symbol @ ''.'' @ symbol \<mapsto> original_symbol),
               renamed_symbols := insert symbol (renamed_symbols s)\<rparr>)
          else
            (api_package_name @ ''.'' @ symbol,
             s\<lparr>renamed_symbols :=
                 insert (api_package_name @ ''.'' @ symbol) (renamed_symbols s)\<rparr>))"

text \<open>Lines 247 to 255: the DocItem built for an inventory entry.\<close>

definition symbol_item_of :: "string \<Rightarrow> string \<Rightarrow> string \<Rightarrow> string \<Rightarrow> DocItem" where
  "symbol_item_of api_package_name group_name base relative_doc_url =
     (case str_partition CHR ''#'' relative_doc_url of
        (relative_path, _, anchor) \<Rightarrow>
          \<lparr>package = api_package_name, group = group_name, base_url = base,
           relative_url_path = relative_path, symbol_id = anchor\<rparr>)"

text \<open>
  The body of the inner loop, lines 222 to 257, for one entry of a group. A symbol with
  a slash is skipped before the group is looked at; \<^verbatim>\<open>group.split(":")[1]\<close> raises
  IndexError when the group has no colon, and nothing catches it.
\<close>

definition merge_symbol ::
  "string \<Rightarrow> string \<Rightarrow> string \<Rightarrow> string \<times> string \<Rightarrow> cog \<Rightarrow> error + cog" where
  "merge_symbol api_package_name base group_id entry s =
     (case entry of
        (symbol, relative_doc_url) \<Rightarrow>
          if CHR ''/'' \<in> set symbol then Inr s
          else
            (case subscript (str_split CHR '':'' group_id) 1 of
               Inl e \<Rightarrow> Inl e
             | Inr group_name \<Rightarrow>
                 (case rename_on_collision api_package_name group_name symbol s of
                    (stored_name, s1) \<Rightarrow>
                      (let symbol_item =
                             symbol_item_of api_package_name group_name base relative_doc_url
                       in Inr (s1\<lparr>doc_symbols := (doc_symbols s1)(stored_name \<mapsto> symbol_item),
                                  item_fetcher := add_item symbol_item (item_fetcher s1)\<rparr>)))))"

text \<open>
  The two loops of lines 220 and 221. An exception leaves the loops with the state
  as the entries before it made it.
\<close>

fun merge_items ::
  "string \<Rightarrow> string \<Rightarrow> string \<Rightarrow> (string \<times> string) list \<Rightarrow> cog \<Rightarrow> error option \<times> cog" where
  "merge_items api_package_name base group_id [] s = (None, s)"
| "merge_items api_package_name base group_id (entry # entries) s =
     (case merge_symbol api_package_name base group_id entry s of
        Inl e \<Rightarrow> (Some e, s)
      | Inr s1 \<Rightarrow> merge_items api_package_name base group_id entries s1)"

fun merge_package :: "string \<Rightarrow> string \<Rightarrow> inventory \<Rightarrow> cog \<Rightarrow> error option \<times> cog" where
  "merge_package api_package_name base [] s = (None, s)"
| "merge_package api_package_name base ((group_id, entries) # groups) s =
     (case merge_items api_package_name base group_id entries s of
        (Some e, s1) \<Rightarrow> (Some e, s1)
      | (None, s1) \<Rightarrow> merge_package api_package_name base groups s1)"

text \<open>
  \<^verbatim>\<open>update_single\<close> awaits \<^verbatim>\<open>fetch_inventory\<close> once. Line 204 runs before the await;
  the rest runs after it, on the state as it is then, with what the fetch gave:
  \<open>None\<close> for a failed fetch. An empty inventory is falsy too (line 207).
\<close>

definition update_single_begin :: "string \<Rightarrow> string \<Rightarrow> cog \<Rightarrow> cog" where
  "update_single_begin api_package_name base s =
     s\<lparr>base_urls := (base_urls s)(api_package_name \<mapsto> base)\<rparr>"

definition reschedule :: "string \<Rightarrow> string \<Rightarrow> cog \<Rightarrow> cog" where
  "reschedule api_package_name inventory_url s =
     (let delay = (if inventory_url \<notin> scheduled_inventories s then 2 * 60 else 5 * 60)
      in s\<lparr>inventory_scheduler := inventory_scheduler s @ [(delay, api_package_name)],
           scheduled_inventories := insert api_package_name (scheduled_inventories s)\<rparr>)"

definition update_single_resume ::
  "string \<Rightarrow> string \<Rightarrow> string \<Rightarrow> inventory option \<Rightarrow> cog \<Rightarrow> bool outcome \<times> cog" where
  "update_single_resume api_package_name base inventory_url fetched s =
     (case fetched of
        None \<Rightarrow> (Returns False, reschedule api_package_name inventory_url s)
      | Some [] \<Rightarrow> (Returns False, reschedule api_package_name inventory_url s)
      | Some (g # gs) \<Rightarrow>
          (case merge_package api_package_name base (g # gs)
                  (s\<lparr>scheduled_inventories := scheduled_inventories s - {api_package_name}\<rparr>) of
             (Some e, s1) \<Rightarrow> (Raises e, s1)
           | (None, s1) \<Rightarrow> (Returns True, s1)))"

definition update_single ::
  "string \<Rightarrow> string \<Rightarrow> string \<Rightarrow> inventory option \<Rightarrow> cog \<Rightarrow> bool outcome \<times> cog" where
  "update_single api_package_name base inventory_url fetched s =
     update_single_resume api_package_name base inventory_url fetched
       (update_single_begin api_package_name base s)"

section \<open>CachedParser.get_markdown, the parse task and clear\<close>

text \<open>\<^verbatim>\<open>self._queue.index(item)\<close>: the first position whose QueueItem equals the
  DocItem, which \<^verbatim>\<open>QueueItem.__eq__\<close> decides on the symbol alone; \<open>None\<close> stands for
  the ValueError of a missing item.\<close>

fun queue_index :: "DocItem \<Rightarrow> (DocItem \<times> soup) list \<Rightarrow> nat option" where
  "queue_index item [] = None"
| "queue_index item (q # qs) =
     (if fst q = item then Some 0 else map_option Suc (queue_index item qs))"

text \<open>\<^verbatim>\<open>_move_to_front\<close>, lines 142 to 145: the item goes to the end of the list, where
  \<^verbatim>\<open>pop()\<close> takes from.\<close>

definition move_to_front :: "DocItem \<Rightarrow> parser \<Rightarrow> error + parser" where
  "move_to_front item p =
     (case queue_index item (queue p) of
        None \<Rightarrow> Inl ValueError
      | Some item_index \<Rightarrow>
          Inr (p\<lparr>queue := take item_index (queue p) @ drop (Suc item_index) (queue p)
                          @ [queue p ! item_index]\<rparr>))"

text \<open>
  \<^verbatim>\<open>get_markdown\<close> is a coroutine. Between two awaits it runs without interruption, so
  it is modelled by the pieces between its awaits, each a function on the state at the
  moment the piece runs. After a piece the call is suspended on the HTTP request (and
  holds \<^verbatim>\<open>symbols_to_queue\<close>, the address of the page's list), has reached the await
  of its future in line 113, or has raised.
\<close>

datatype call_state = AwaitResponse nat | AwaitFuture | Raised error

text \<open>Lines 110 to 113.\<close>

definition get_markdown_tail :: "DocItem \<Rightarrow> parser \<Rightarrow> call_state \<times> parser" where
  "get_markdown_tail doc_item p =
     (case move_to_front doc_item p of
        Inl e \<Rightarrow> (Raised e, p)
      | Inr p1 \<Rightarrow>
          (AwaitFuture,
           if map_of (item_futures p1) doc_item = None
           then p1\<lparr>item_futures := item_futures p1 @ [(doc_item, Pending)]\<rparr>
           else p1))"

text \<open>From the call to the first await: line 99, then either the HTTP request of
  line 100 or lines 110 to 113.\<close>

definition get_markdown_request :: "DocItem \<Rightarrow> parser \<Rightarrow> call_state \<times> parser" where
  "get_markdown_request doc_item p =
     (case page_symbols p (url doc_item) of
        Some symbols_to_queue \<Rightarrow>
          (AwaitResponse symbols_to_queue,
           p\<lparr>http_requests := http_requests p @ [url doc_item]\<rparr>)
      | None \<Rightarrow> get_markdown_tail doc_item p)"

text \<open>
  From the arrival of the page to the next await: lines 103 to 108, then 110 to 113.
  \<^verbatim>\<open>del self._page_symbols[doc_item.url]\<close> raises KeyError when the key is gone, after
  the queue has been extended. (An HTTP request that fails raises in its caller and
  leaves the parser as it is; it is no step of this model.)
\<close>

definition get_markdown_response ::
  "DocItem \<Rightarrow> nat \<Rightarrow> soup \<Rightarrow> parser \<Rightarrow> call_state \<times> parser" where
  "get_markdown_response doc_item symbols_to_queue page p =
     (let p1 = p\<lparr>queue := queue p
                     @ map (\<lambda>symbol. (symbol, page)) (list_store p symbols_to_queue)\<rparr>
      in case page_symbols p1 (url doc_item) of
           None \<Rightarrow> (Raised KeyError, p1)
         | Some _ \<Rightarrow>
             (let p2 = p1\<lparr>page_symbols := (page_symbols p1)(url doc_item := None)\<rparr>;
                  p3 = (case parse_task p2 of
                          None \<Rightarrow> p2\<lparr>parse_task := Some \<lparr>pc = NotStarted, must_cancel = False\<rparr>\<rparr>
                        | Some _ \<Rightarrow> p2)
              in get_markdown_tail doc_item p3))"

text \<open>
  \<^verbatim>\<open>_parse_queue\<close> from the head of its loop (line 123) to its next await or its end.
  \<open>get_symbol_markdown page item\<close> is \<open>None\<close> when the extractor raises an Exception,
  which line 128 catches. Leaving the \<^verbatim>\<open>try\<close> runs line 135.
\<close>

definition parse_loop :: "(soup \<Rightarrow> DocItem \<Rightarrow> markdown option) \<Rightarrow> parser \<Rightarrow> parser" where
  "parse_loop get_symbol_markdown p =
     (if queue p = [] then p\<lparr>parse_task := None\<rparr>
      else
        (case last (queue p) of
           (item, page) \<Rightarrow>
             (let p1 = p\<lparr>queue := butlast (queue p),
                          extractor_calls := extractor_calls p @ [item]\<rparr>
              in case get_symbol_markdown page item of
                   None \<Rightarrow> p1\<lparr>parse_task := Some \<lparr>pc = AwaitSleep, must_cancel = False\<rparr>\<rparr>
                 | Some markdown \<Rightarrow>
                     p1\<lparr>parse_task :=
                          Some \<lparr>pc = AwaitCacheSet item markdown, must_cancel = False\<rparr>\<rparr>)))"

text \<open>
  One resumption of the task that \<^verbatim>\<open>_parse_task\<close> refers to, up to its next await or
  its end. \<open>cache_ok\<close> tells whether \<^verbatim>\<open>doc_cache.set\<close> returned (rather than raised an
  Exception). A cancelled task is resumed with CancelledError at the await it is
  suspended on; CancelledError is a BaseException in every Python that accepts the
  assignment expressions of this file, so line 128 does not catch it and line 135 runs.
  A task that
  is cancelled before it ran for the first time ends without entering the body of
  \<^verbatim>\<open>_parse_queue\<close>: line 135 is not reached and \<^verbatim>\<open>_parse_task\<close> keeps referring to it.
  \<^verbatim>\<open>future.set_result\<close> on a future that has a result raises InvalidStateError in the
  \<^verbatim>\<open>else\<close> branch of line 130, outside the \<^verbatim>\<open>try\<close> of line 125.
\<close>

definition worker_step ::
  "(soup \<Rightarrow> DocItem \<Rightarrow> markdown option) \<Rightarrow> bool \<Rightarrow> parser \<Rightarrow> parser" where
  "worker_step get_symbol_markdown cache_ok p =
     (case parse_task p of
        None \<Rightarrow> p
      | Some t \<Rightarrow>
          (case pc t of
             Finished \<Rightarrow> p
           | NotStarted \<Rightarrow>
               if must_cancel t then p\<lparr>parse_task := Some (t\<lparr>pc := Finished\<rparr>)\<rparr>
               else parse_loop get_symbol_markdown p
           | AwaitSleep \<Rightarrow>
               if must_cancel t then p\<lparr>parse_task := None\<rparr>
               else parse_loop get_symbol_markdown p
           | AwaitCacheSet item markdown \<Rightarrow>
               if must_cancel t then p\<lparr>parse_task := None\<rparr>
               else if \<not> cache_ok then p\<lparr>parse_task := Some (t\<lparr>pc := AwaitSleep\<rparr>)\<rparr>
               else
                 (case map_of (item_futures p) item of
                    None \<Rightarrow> p\<lparr>parse_task := Some (t\<lparr>pc := AwaitSleep\<rparr>)\<rparr>
                  | Some Pending \<Rightarrow>
                      p\<lparr>item_futures := AList.update item (Resolved markdown) (item_futures p),
                        parse_task := Some (t\<lparr>pc := AwaitSleep\<rparr>)\<rparr>
                  | Some (Resolved _) \<Rightarrow> p\<lparr>parse_task := None\<rparr>)))"

text \<open>\<^verbatim>\<open>Task.cancel()\<close>: no effect on a task that is over.\<close>

definition cancel :: "task \<Rightarrow> task" where
  "cancel t = (case pc t of Finished \<Rightarrow> t | _ \<Rightarrow> t\<lparr>must_cancel := True\<rparr>)"

text \<open>
  \<^verbatim>\<open>clear\<close> is a coroutine too. After a piece of it the call is suspended in line 158
  on the future at a position of \<^verbatim>\<open>_item_futures\<close>, has run to its end, or has raised.
  The iterator of line 157 remembers the size the dict had when the loop began.
\<close>

datatype clear_state = AwaitItemFuture nat nat | Cleared | ClearRaised error

text \<open>The position of the first pending future among the entries that start at position
  \<open>i\<close>; awaiting a future that has its result does not suspend.\<close>

fun first_pending :: "nat \<Rightarrow> (DocItem \<times> future) list \<Rightarrow> nat option" where
  "first_pending i [] = None"
| "first_pending i (entry # entries) =
     (case snd entry of
        Pending \<Rightarrow> Some i
      | Resolved _ \<Rightarrow> first_pending (Suc i) entries)"

text \<open>Lines 159 to 163.\<close>

definition clear_finish :: "parser \<Rightarrow> parser" where
  "clear_finish p =
     p\<lparr>parse_task := map_option cancel (parse_task p),
       queue := [],
       page_symbols := Map.empty,
       item_futures := []\<rparr>"

text \<open>
  The loop of lines 157 and 158 from position \<open>i\<close> on, for an iterator made when the
  dict had \<open>n\<close> entries, up to the next pending future or through lines 159 to 163.
  Asking the iterator for its next value raises RuntimeError when the dict has changed
  its size; the size cannot change while a piece runs, so one test per piece is exact.
\<close>

definition clear_from :: "nat \<Rightarrow> nat \<Rightarrow> parser \<Rightarrow> clear_state \<times> parser" where
  "clear_from i n p =
     (if length (item_futures p) \<noteq> n then (ClearRaised RuntimeError, p)
      else
        (case first_pending i (drop i (item_futures p)) of
           Some j \<Rightarrow> (AwaitItemFuture j n, p)
         | None \<Rightarrow> (Cleared, clear_finish p)))"

text \<open>From the call of \<^verbatim>\<open>clear\<close> to its first await or its end.\<close>

definition clear :: "parser \<Rightarrow> clear_state \<times> parser" where
  "clear p = clear_from 0 (length (item_futures p)) p"

text \<open>
  A call suspended on the future at position \<open>j\<close>, on the state as it is when the
  scheduler comes back to it: it stays suspended while that future is pending, and goes
  on with the next position otherwise. While a call is suspended, entries are added to
  \<^verbatim>\<open>_item_futures\<close> and futures get their results, but no entry leaves the dict: only
  \<^verbatim>\<open>clear\<close> removes entries, and every caller of \<^verbatim>\<open>refresh_inventory\<close> holds the lock
  of \<^verbatim>\<open>COMMAND_LOCK_SINGLETON\<close>, so no second \<^verbatim>\<open>clear\<close> runs meanwhile.
\<close>

definition clear_resume :: "nat \<Rightarrow> nat \<Rightarrow> parser \<Rightarrow> clear_state \<times> parser" where
  "clear_resume j n p =
     (if j < length (item_futures p) \<and> snd (item_futures p ! j) = Pending
      then (AwaitItemFuture j n, p)
      else clear_from (Suc j) n p)"

section \<open>Concrete inputs\<close>

text \<open>Symbol tables with one symbol, as a first package leaves them.\<close>

definition libB_bind :: DocItem where
  "libB_bind = \<lparr>package = ''libB'', group = ''func'', base_url = ''https://b.example/'',
                relative_url_path = ''api.html'', symbol_id = ''bind''\<rparr>"

definition table_with_bind :: cog where
  "table_with_bind = init_cog\<lparr>doc_symbols := [''bind'' \<mapsto> libB_bind]\<rparr>"

definition otherlib_open :: DocItem where
  "otherlib_open = \<lparr>package = ''otherlib'', group = ''function'',
                    base_url = ''https://other.example/'',
                    relative_url_path = ''io.html'', symbol_id = ''open''\<rparr>"

definition python_open :: DocItem where
  "python_open = \<lparr>package = ''python'', group = ''function'',
                  base_url = ''https://docs.python.org/3/'',
                  relative_url_path = ''library/functions.html'', symbol_id = ''open''\<rparr>"

definition table_with_open :: cog where
  "table_with_open = init_cog\<lparr>doc_symbols := [''open'' \<mapsto> otherlib_open]\<rparr>"

text \<open>
  Tables built by merging packages that all have a symbol \<open>bind\<close>: \<open>libB\<close> first, then
  \<open>libC\<close> with a label, or \<open>libA\<close> with a function.
\<close>

definition libC_bind :: DocItem where
  "libC_bind = \<lparr>package = ''libC'', group = ''label'', base_url = ''https://c.example/'',
                relative_url_path = ''guide.html'', symbol_id = ''bind''\<rparr>"

definition libA_label_bind :: DocItem where
  "libA_label_bind = \<lparr>package = ''libA'', group = ''label'', base_url = ''https://a.example/'',
                      relative_url_path = ''usage.html'', symbol_id = ''bind''\<rparr>"

definition libA_function_bind :: DocItem where
  "libA_function_bind = \<lparr>package = ''libA'', group = ''function'',
                         base_url = ''https://a.example/'',
                         relative_url_path = ''functions.html'', symbol_id = ''bind''\<rparr>"

definition libA_method_bind :: DocItem where
  "libA_method_bind = \<lparr>package = ''libA'', group = ''method'', base_url = ''https://a.example/'',
                       relative_url_path = ''classes.html'', symbol_id = ''Socket.bind''\<rparr>"

definition merged_libB :: cog where
  "merged_libB = snd (merge_package ''libB'' ''https://b.example/''
                   [(''py:func'', [(''bind'', ''api.html#bind'')])] init_cog)"

definition merged_libB_libC :: cog where
  "merged_libB_libC = snd (merge_package ''libC'' ''https://c.example/''
                        [(''std:label'', [(''bind'', ''guide.html#bind'')])] merged_libB)"

definition merged_libB_libA :: cog where
  "merged_libB_libA = snd (merge_package ''libA'' ''https://a.example/''
                        [(''py:function'', [(''bind'', ''functions.html#bind'')])] merged_libB)"

text \<open>A table in which the bare name belongs to a label and \<open>label.bind\<close> is a renamed
  symbol already.\<close>

definition label_first :: cog where
  "label_first =
     init_cog\<lparr>doc_symbols := [''bind'' \<mapsto> libC_bind, ''label.bind'' \<mapsto> libA_label_bind],
              renamed_symbols := {''label.bind''}\<rparr>"

text \<open>Two symbols of one page, and an extractor that succeeds on every item.\<close>

definition item_a :: DocItem where
  "item_a = \<lparr>package = ''lib'', group = ''function'', base_url = ''https://lib.example/'',
             relative_url_path = ''api.html'', symbol_id = ''a''\<rparr>"

definition item_b :: DocItem where
  "item_b = \<lparr>package = ''lib'', group = ''function'', base_url = ''https://lib.example/'',
             relative_url_path = ''api.html'', symbol_id = ''b''\<rparr>"

definition extractor :: "soup \<Rightarrow> DocItem \<Rightarrow> markdown option" where
  "extractor page item = Some (symbol_id item)"

definition page_a :: parser where
  "page_a = add_item item_a init_parser"

definition page_a_b :: parser where
  "page_a_b = add_item item_b (add_item item_a init_parser)"

text \<open>
  One caller asks for \<open>item_a\<close>, the page arrives, and the parse task runs three times:
  it starts and calls the extractor, it resolves the future, it finds the queue empty.
\<close>

definition fetched_a :: parser where
  "fetched_a = snd (get_markdown_response item_a 0 ''page''
                 (snd (get_markdown_request item_a page_a)))"

definition parsed_a :: parser where
  "parsed_a = worker_step extractor True (worker_step extractor True
                (worker_step extractor True fetched_a))"

text \<open>
  Two callers ask for symbols of the same page, the second before the page of the first
  has arrived: for \<open>item_a\<close> and \<open>item_b\<close>, and twice for \<open>item_a\<close>.
\<close>

definition requested_a_b :: parser where
  "requested_a_b = snd (get_markdown_request item_b (snd (get_markdown_request item_a page_a_b)))"

definition answered_a :: parser where
  "answered_a = snd (get_markdown_response item_a 0 ''page'' requested_a_b)"

definition requested_twice :: parser where
  "requested_twice = snd (get_markdown_request item_a (snd (get_markdown_request item_a page_a)))"

definition answered_twice :: parser where
  "answered_twice = snd (get_markdown_response item_a 0 ''page''
                      (snd (get_markdown_response item_a 0 ''page'' requested_twice)))"

definition drained_twice :: parser where
  "drained_twice = worker_step extractor True (worker_step extractor True
                     (worker_step extractor True (worker_step extractor True answered_twice)))"

text \<open>
  After \<open>parsed_a\<close>: \<^verbatim>\<open>update_single\<close> merges the package again and adds \<open>item_a\<close> once
  more, a caller asks for it and its page arrives, which creates a parse task;
  \<^verbatim>\<open>clear\<close> runs before the task does; the task is resumed; then \<open>item_b\<close> is added and
  asked for, and its page arrives.
\<close>

definition readded_a :: parser where
  "readded_a = add_item item_a parsed_a"

definition refetched_a :: parser where
  "refetched_a = snd (get_markdown_response item_a 1 ''page''
                   (snd (get_markdown_request item_a readded_a)))"

definition cleared_a :: parser where
  "cleared_a = snd (clear refetched_a)"

definition stale_handle :: parser where
  "stale_handle = worker_step extractor True cleared_a"

definition fetched_b :: parser where
  "fetched_b = snd (get_markdown_response item_b 2 ''page''
                 (snd (get_markdown_request item_b (add_item item_b stale_handle))))"

text \<open>
  Only \<open>item_b\<close> is registered for the page; a caller that holds \<open>item_a\<close>, an item of
  the same page from before a refresh, asks for it; the page arrives and the parse task
  runs once, up to the await of \<^verbatim>\<open>doc_cache.set\<close> for \<open>item_b\<close>.
\<close>

definition busy_worker :: parser where
  "busy_worker = worker_step extractor True
                   (snd (get_markdown_response item_a 0 ''page''
                      (snd (get_markdown_request item_a (add_item item_b init_parser)))))"

text \<open>
  After \<open>fetched_a\<close> the parse task runs twice and resolves the future of \<open>item_a\<close>,
  and a \<^verbatim>\<open>clear\<close> that has been waiting for that future since \<open>fetched_a\<close> goes on.
\<close>

definition resolved_a :: parser where
  "resolved_a = worker_step extractor True (worker_step extractor True fetched_a)"

definition cleared_after_wait :: parser where
  "cleared_after_wait = snd (clear_resume 0 1 resolved_a)"

text \<open>An inventory with a group that has no colon after a group that is merged.\<close>

definition lib_e :: DocItem where
  "lib_e = \<lparr>package = ''lib'', group = ''function'', base_url = ''https://lib.example/'',
            relative_url_path = ''e.html'', symbol_id = ''e''\<rparr>"

definition merged_e :: cog where
  "merged_e = snd (merge_package ''lib'' ''https://lib.example/''
                 [(''py:function'', [(''e'', ''e.html#e'')])] init_cog)"

section \<open>Collision rules of update_single\<close>

lemma composite_name_differs: "prefix @ ''.'' @ symbol \<noteq> symbol"
proof
  assume "prefix @ ''.'' @ symbol = symbol"
  then have "length (prefix @ ''.'' @ symbol) = length symbol" by simp
  then show False by simp
qed

text \<open>
  C5 (collision rule A). An entry that is merged (no slash in its name, a group with a
  second colon-separated part) whose kind is a force-prefix group and whose bare name is
  taken: the new item is stored under \<open>kind.name\<close>, that name is a renamed symbol, and
  the bare name still maps to the item it mapped to.
\<close>

theorem collision_rule_A:
  assumes "CHR ''/'' \<notin> set symbol"
    and "subscript (str_split CHR '':'' group_id) 1 = Inr group_name"
    and "group_name \<in> set FORCE_PREFIX_GROUPS"
    and "doc_symbols s symbol = Some original_symbol"
  shows "\<exists>s'. merge_symbol api_package_name base group_id (symbol, relative_doc_url) s = Inr s'
           \<and> doc_symbols s' (group_name @ ''.'' @ symbol) =
               Some (symbol_item_of api_package_name group_name base relative_doc_url)
           \<and> group_name @ ''.'' @ symbol \<in> renamed_symbols s'
           \<and> doc_symbols s' symbol = Some original_symbol"
  using assms composite_name_differs [of group_name symbol]
  by (simp add: merge_symbol_def rename_on_collision_def Let_def)

theorem collision_rule_A_witness:
  "CHR ''/'' \<notin> set ''bind''
   \<and> subscript (str_split CHR '':'' ''std:label'') 1 = Inr ''label''
   \<and> ''label'' \<in> set FORCE_PREFIX_GROUPS
   \<and> doc_symbols table_with_bind ''bind'' = Some libB_bind
   \<and> (\<exists>s'. merge_symbol ''libA'' ''https://a.example/'' ''std:label''
               (''bind'', ''usage.html#bind'') table_with_bind = Inr s'
          \<and> doc_symbols s' ''label.bind'' =
               Some \<lparr>package = ''libA'', group = ''label'', base_url = ''https://a.example/'',
                     relative_url_path = ''usage.html'', symbol_id = ''bind''\<rparr>
          \<and> ''label.bind'' \<in> renamed_symbols s'
          \<and> doc_symbols s' ''bind'' = Some libB_bind)"
proof -
  have h1: "CHR ''/'' \<notin> set ''bind''" by simp
  have h2: "subscript (str_split CHR '':'' ''std:label'') 1 = Inr ''label''"
    by (simp add: subscript_def)
  have h3: "''label'' \<in> set FORCE_PREFIX_GROUPS" by (simp add: FORCE_PREFIX_GROUPS_def)
  have h4: "doc_symbols table_with_bind ''bind'' = Some libB_bind"
    by (simp add: table_with_bind_def)
  have item: "symbol_item_of ''libA'' ''label'' ''https://a.example/'' ''usage.html#bind'' =
      \<lparr>package = ''libA'', group = ''label'', base_url = ''https://a.example/'',
       relative_url_path = ''usage.html'', symbol_id = ''bind''\<rparr>"
    by (simp add: symbol_item_of_def str_partition_def)
  from collision_rule_A [OF h1 h2 h3 h4, of "''libA''" "''https://a.example/''" "''usage.html#bind''"]
  show ?thesis using h1 h2 h3 h4 item by simp
qed

text \<open>
  The third rule (lines 239 to 241) for any entry of a priority package whose bare name
  is taken, when neither kind is a force-prefix group: the new item takes the bare name,
  the old item is stored under its package and the name, and the one name added to the
  renamed symbols is the bare name.
\<close>

lemma collision_rule_C_table:
  assumes "CHR ''/'' \<notin> set symbol"
    and "subscript (str_split CHR '':'' group_id) 1 = Inr group_name"
    and "group_name \<notin> set FORCE_PREFIX_GROUPS"
    and "doc_symbols s symbol = Some original_symbol"
    and "group original_symbol \<notin> set FORCE_PREFIX_GROUPS"
    and "api_package_name \<in> set PRIORITY_PACKAGES"
  shows "\<exists>s'. merge_symbol api_package_name base group_id (symbol, relative_doc_url) s = Inr s'
           \<and> doc_symbols s' symbol =
               Some (symbol_item_of api_package_name group_name base relative_doc_url)
           \<and> doc_symbols s' (package original_symbol @ ''.'' @ symbol) = Some original_symbol
           \<and> renamed_symbols s' = insert symbol (renamed_symbols s)"
  using assms composite_name_differs [of "package original_symbol" symbol]
  by (simp add: merge_symbol_def rename_on_collision_def Let_def)

lemma python_open_item:
  "symbol_item_of ''python'' ''function'' ''https://docs.python.org/3/''
     ''library/functions.html#open'' = python_open"
  by (simp add: symbol_item_of_def str_partition_def python_open_def)

text \<open>
  C1 (collision rule C). The priority package \<open>python\<close> merges \<open>open\<close> while the bare
  name belongs to \<open>otherlib\<close>, neither kind being a force-prefix group. The new item
  takes the bare name and the old one is stored under \<open>otherlib.open\<close>, but line 241
  adds the bare name to \<^verbatim>\<open>renamed_symbols\<close> and nothing adds \<open>otherlib.open\<close>.
\<close>

theorem collision_rule_C_marks_bare_name_only:
  "\<exists>s'. merge_symbol ''python'' ''https://docs.python.org/3/'' ''py:function''
            (''open'', ''library/functions.html#open'') table_with_open = Inr s'
        \<and> doc_symbols s' ''open'' = Some python_open
        \<and> doc_symbols s' ''otherlib.open'' = Some otherlib_open
        \<and> renamed_symbols s' = {''open''}
        \<and> ''otherlib.open'' \<notin> renamed_symbols s'"
  by (simp add: merge_symbol_def rename_on_collision_def subscript_def python_open_item
      table_with_open_def init_cog_def FORCE_PREFIX_GROUPS_def PRIORITY_PACKAGES_def
      otherlib_open_def Let_def)

section \<open>Retry delay of update_single\<close>

text \<open>
  Two failed fetches in a row ask for 120 seconds both times, unless the inventory URL
  itself is an element of \<^verbatim>\<open>scheduled_inventories\<close>, which holds package names.
\<close>

lemma second_failure_delay:
  assumes "inventory_url \<notin> scheduled_inventories s" and "inventory_url \<noteq> api_package_name"
  shows "inventory_scheduler
           (snd (update_single api_package_name base inventory_url None
              (snd (update_single api_package_name base inventory_url None s))))
         = inventory_scheduler s @ [(120, api_package_name), (120, api_package_name)]"
  using assms
  by (simp add: update_single_def update_single_begin_def update_single_resume_def reschedule_def
      Let_def)

text \<open>
  C2 (retry backoff). The fetch of the inventory of \<open>foo\<close> fails twice in a row,
  starting from a fresh cog. The first failure asks the scheduler for 120 seconds and
  puts the package name into \<^verbatim>\<open>scheduled_inventories\<close>; line 208 looks the inventory
  URL up in that set, so the second failure asks for 120 seconds again, not for 300.
\<close>

theorem retry_delay_second_failure:
  "inventory_scheduler
     (snd (update_single ''foo'' ''https://foo.example/'' ''https://foo.example/objects.inv'' None
        (snd (update_single ''foo'' ''https://foo.example/'' ''https://foo.example/objects.inv'' None
           init_cog))))
   = [(120, ''foo''), (120, ''foo'')]
   \<and> ''foo'' \<in> scheduled_inventories
        (snd (update_single ''foo'' ''https://foo.example/'' ''https://foo.example/objects.inv'' None
           init_cog))"
  by (simp add: update_single_def update_single_begin_def update_single_resume_def reschedule_def
      init_cog_def Let_def)

section \<open>Groups without a colon\<close>

lemma str_split_no_sep: "sep \<notin> set s \<Longrightarrow> str_split sep s = [s]"
  by (induction s) auto

lemma merge_symbol_no_colon:
  "CHR '':'' \<notin> set group_id \<Longrightarrow> CHR ''/'' \<notin> set symbol \<Longrightarrow>
   merge_symbol api_package_name base group_id (symbol, relative_doc_url) s = Inl IndexError"
  by (simp add: merge_symbol_def str_split_no_sep subscript_def)

lemma merge_items_append:
  "merge_items api_package_name base group_id (xs @ ys) s =
     (case merge_items api_package_name base group_id xs s of
        (Some e, s1) \<Rightarrow> (Some e, s1)
      | (None, s1) \<Rightarrow> merge_items api_package_name base group_id ys s1)"
  by (induction xs arbitrary: s) (auto split: sum.splits)

lemma merge_package_append:
  "merge_package api_package_name base (gs1 @ gs2) s =
     (case merge_package api_package_name base gs1 s of
        (Some e, s1) \<Rightarrow> (Some e, s1)
      | (None, s1) \<Rightarrow> merge_package api_package_name base gs2 s1)"
  by (induction gs1 arbitrary: s) (auto split: prod.splits option.splits)

lemma merged_e_result:
  "merge_package ''lib'' ''https://lib.example/'' [(''py:function'', [(''e'', ''e.html#e'')])]
     init_cog = (None, merged_e)"
  by (simp add: merged_e_def merge_symbol_def rename_on_collision_def subscript_def
      init_cog_def Let_def)

lemma merged_e_table: "doc_symbols merged_e = [''e'' \<mapsto> lib_e]"
  by (simp add: merged_e_def merge_symbol_def rename_on_collision_def subscript_def
      symbol_item_of_def str_partition_def lib_e_def init_cog_def Let_def)

lemma merged_e_scheduled: "scheduled_inventories merged_e = {}"
  by (simp add: merged_e_def merge_symbol_def rename_on_collision_def subscript_def
      init_cog_def Let_def)

text \<open>
  C4, as the code has it. For a group without a colon that comes after any groups and
  entries that merge: an entry whose name has no slash raises IndexError, which ends
  the merge of the package, and the call of \<^verbatim>\<open>update_single\<close>, with the state that the
  groups and entries before it produced, whatever entries and groups follow; an entry
  whose name has a slash is skipped before the group is read.
\<close>

theorem malformed_group_aborts_merge:
  assumes "CHR '':'' \<notin> set group_id"
  shows "(CHR ''/'' \<notin> set symbol \<longrightarrow>
          merge_package api_package_name base earlier_groups s = (None, s1) \<longrightarrow>
          merge_items api_package_name base group_id earlier s1 = (None, s2) \<longrightarrow>
          merge_package api_package_name base
            (earlier_groups @ (group_id, earlier @ (symbol, relative_doc_url) # later) # groups) s
          = (Some IndexError, s2))
       \<and> (CHR ''/'' \<notin> set symbol \<longrightarrow>
          merge_package api_package_name base earlier_groups
            (s\<lparr>scheduled_inventories := scheduled_inventories s - {api_package_name}\<rparr>)
          = (None, s1) \<longrightarrow>
          merge_items api_package_name base group_id earlier s1 = (None, s2) \<longrightarrow>
          update_single_resume api_package_name base inventory_url
            (Some (earlier_groups
                   @ (group_id, earlier @ (symbol, relative_doc_url) # later) # groups)) s
          = (Raises IndexError, s2))
       \<and> (CHR ''/'' \<in> set symbol \<longrightarrow>
          merge_symbol api_package_name base group_id (symbol, relative_doc_url) s = Inr s)"
proof -
  have stop: "merge_package api_package_name base
      (gs @ (group_id, earlier @ (symbol, relative_doc_url) # later) # groups) s0
    = (Some IndexError, s2)"
    if "CHR ''/'' \<notin> set symbol"
      and "merge_package api_package_name base gs s0 = (None, s1)"
      and "merge_items api_package_name base group_id earlier s1 = (None, s2)"
    for gs s0
    using that assms
    by (simp add: merge_package_append merge_items_append merge_symbol_no_colon)
  have raise: "update_single_resume api_package_name base inventory_url
      (Some (earlier_groups @ (group_id, earlier @ (symbol, relative_doc_url) # later) # groups)) s
    = (Raises IndexError, s2)"
    if a: "CHR ''/'' \<notin> set symbol"
      and b: "merge_package api_package_name base earlier_groups
        (s\<lparr>scheduled_inventories := scheduled_inventories s - {api_package_name}\<rparr>) = (None, s1)"
      and c: "merge_items api_package_name base group_id earlier s1 = (None, s2)"
  proof -
    obtain g gs where inv: "earlier_groups
        @ (group_id, earlier @ (symbol, relative_doc_url) # later) # groups = g # gs"
      by (cases earlier_groups) auto
    have "merge_package api_package_name base (g # gs)
        (s\<lparr>scheduled_inventories := scheduled_inventories s - {api_package_name}\<rparr>)
      = (Some IndexError, s2)"
      using stop [OF a b c] unfolding inv .
    then show ?thesis
      unfolding inv by (simp add: update_single_resume_def)
  qed
  have skip: "merge_symbol api_package_name base group_id (symbol, relative_doc_url) s = Inr s"
    if "CHR ''/'' \<in> set symbol"
    using that by (simp add: merge_symbol_def)
  from stop raise skip show ?thesis by blast
qed

theorem malformed_group_aborts_merge_witness:
  "CHR '':'' \<notin> set ''nocolon''
   \<and> CHR ''/'' \<notin> set ''a''
   \<and> merge_package ''lib'' ''https://lib.example/''
        [(''py:function'', [(''e'', ''e.html#e'')])] init_cog = (None, merged_e)
   \<and> merge_items ''lib'' ''https://lib.example/'' ''nocolon'' [(''x/y'', ''x.html'')] merged_e
       = (None, merged_e)
   \<and> merge_package ''lib'' ''https://lib.example/''
        [(''py:function'', [(''e'', ''e.html#e'')]),
         (''nocolon'', [(''x/y'', ''x.html''), (''a'', ''a.html''), (''c'', ''c.html'')]),
         (''py:function'', [(''b'', ''b.html'')])] init_cog
       = (Some IndexError, merged_e)
   \<and> update_single_resume ''lib'' ''https://lib.example/'' ''https://lib.example/objects.inv''
        (Some [(''py:function'', [(''e'', ''e.html#e'')]),
               (''nocolon'', [(''x/y'', ''x.html''), (''a'', ''a.html''), (''c'', ''c.html'')]),
               (''py:function'', [(''b'', ''b.html'')])]) init_cog
       = (Raises IndexError, merged_e)
   \<and> doc_symbols merged_e ''e'' = Some lib_e
   \<and> doc_symbols merged_e ''a'' = None
   \<and> doc_symbols merged_e ''c'' = None
   \<and> doc_symbols merged_e ''b'' = None
   \<and> CHR ''/'' \<in> set ''x/y''
   \<and> merge_symbol ''lib'' ''https://lib.example/'' ''nocolon'' (''x/y'', ''x.html'') merged_e
       = Inr merged_e"
proof -
  have h1: "CHR '':'' \<notin> set ''nocolon''" by simp
  have h2: "CHR ''/'' \<notin> set ''a''" by simp
  have h3: "CHR ''/'' \<in> set ''x/y''" by simp
  have h4: "merge_items ''lib'' ''https://lib.example/'' ''nocolon'' [(''x/y'', ''x.html'')] merged_e
       = (None, merged_e)"
    by (simp add: merge_symbol_def)
  have h5: "merge_package ''lib'' ''https://lib.example/''
        [(''py:function'', [(''e'', ''e.html#e'')])]
        (init_cog\<lparr>scheduled_inventories := scheduled_inventories init_cog - {''lib''}\<rparr>)
      = (None, merged_e)"
    using merged_e_result by (simp add: init_cog_def)
  note t = malformed_group_aborts_merge [OF h1, where symbol = "''a''"
      and api_package_name = "''lib''" and base = "''https://lib.example/''"
      and earlier_groups = "[(''py:function'', [(''e'', ''e.html#e'')])]"
      and s = init_cog and ?s1.0 = merged_e and ?s2.0 = merged_e
      and earlier = "[(''x/y'', ''x.html'')]" and relative_doc_url = "''a.html''"
      and later = "[(''c'', ''c.html'')]" and groups = "[(''py:function'', [(''b'', ''b.html'')])]"
      and inventory_url = "''https://lib.example/objects.inv''"]
  have r1: "merge_package ''lib'' ''https://lib.example/''
        ([(''py:function'', [(''e'', ''e.html#e'')])]
         @ (''nocolon'', [(''x/y'', ''x.html'')] @ (''a'', ''a.html'') # [(''c'', ''c.html'')])
           # [(''py:function'', [(''b'', ''b.html'')])]) init_cog
       = (Some IndexError, merged_e)"
    using t h2 merged_e_result h4 by blast
  have r2: "update_single_resume ''lib'' ''https://lib.example/'' ''https://lib.example/objects.inv''
        (Some ([(''py:function'', [(''e'', ''e.html#e'')])]
         @ (''nocolon'', [(''x/y'', ''x.html'')] @ (''a'', ''a.html'') # [(''c'', ''c.html'')])
           # [(''py:function'', [(''b'', ''b.html'')])])) init_cog
       = (Raises IndexError, merged_e)"
    using t h2 h5 h4 by blast
  have r3: "merge_symbol ''lib'' ''https://lib.example/'' ''nocolon'' (''x/y'', ''x.html'') merged_e
       = Inr merged_e"
    using malformed_group_aborts_merge [OF h1, where symbol = "''x/y''" and s = merged_e] h3
    by blast
  from r1 r2 r3 h1 h2 h3 h4 merged_e_result show ?thesis
    by (simp add: merged_e_table)
qed

text \<open>
  C4 as claimed fails: the entry \<open>a\<close> of a group without a colon is not skipped, the
  call raises and the entry \<open>b\<close> of the next group is never merged.
\<close>

theorem malformed_group_counterexample:
  "fst (update_single ''lib'' ''https://lib.example/'' ''https://lib.example/objects.inv''
          (Some [(''nocolon'', [(''a'', ''a.html'')]), (''py:function'', [(''b'', ''b.html'')])])
          init_cog) = Raises IndexError
   \<and> doc_symbols
        (snd (update_single ''lib'' ''https://lib.example/'' ''https://lib.example/objects.inv''
          (Some [(''nocolon'', [(''a'', ''a.html'')]), (''py:function'', [(''b'', ''b.html'')])])
          init_cog)) ''b'' = None"
  by (simp add: update_single_def update_single_begin_def update_single_resume_def
      merge_symbol_no_colon init_cog_def)

section \<open>Names that collide with a renamed symbol\<close>

lemma item_of_simps:
  "symbol_item_of ''libB'' ''func'' ''https://b.example/'' ''api.html#bind'' = libB_bind"
  "symbol_item_of ''libC'' ''label'' ''https://c.example/'' ''guide.html#bind'' = libC_bind"
  "symbol_item_of ''libA'' ''label'' ''https://a.example/'' ''usage.html#bind'' = libA_label_bind"
  "symbol_item_of ''libA'' ''function'' ''https://a.example/'' ''functions.html#bind'' = libA_function_bind"
  "symbol_item_of ''libA'' ''method'' ''https://a.example/'' ''classes.html#Socket.bind'' = libA_method_bind"
  by (simp_all add: symbol_item_of_def str_partition_def libB_bind_def libC_bind_def
      libA_label_bind_def libA_function_bind_def libA_method_bind_def)

lemma merged_libB_table:
  "doc_symbols merged_libB = [''bind'' \<mapsto> libB_bind]" "renamed_symbols merged_libB = {}"
  by (simp_all add: merged_libB_def merge_symbol_def rename_on_collision_def subscript_def
      item_of_simps init_cog_def Let_def)

lemma merged_libB_libC_table:
  "doc_symbols merged_libB_libC = [''bind'' \<mapsto> libB_bind, ''label.bind'' \<mapsto> libC_bind]"
  "renamed_symbols merged_libB_libC = {''label.bind''}"
  by (simp_all add: merged_libB_libC_def merge_symbol_def rename_on_collision_def subscript_def
      item_of_simps merged_libB_table FORCE_PREFIX_GROUPS_def Let_def)

lemma merged_libB_libA_table:
  "doc_symbols merged_libB_libA = [''bind'' \<mapsto> libB_bind, ''libA.bind'' \<mapsto> libA_function_bind]"
  "renamed_symbols merged_libB_libA = {''libA.bind''}"
  by (simp_all add: merged_libB_libA_def merge_symbol_def rename_on_collision_def subscript_def
      item_of_simps merged_libB_table FORCE_PREFIX_GROUPS_def PRIORITY_PACKAGES_def Let_def
      libB_bind_def)

lemma rule_B_keeps_alternate:
  assumes "CHR ''/'' \<notin> set symbol"
    and "subscript (str_split CHR '':'' group_id) 1 = Inr group_name"
    and "group_name \<notin> set FORCE_PREFIX_GROUPS"
    and "doc_symbols s symbol = Some original_symbol"
    and "group original_symbol \<in> set FORCE_PREFIX_GROUPS"
    and "group original_symbol @ ''.'' @ symbol \<in> renamed_symbols s"
  shows "\<exists>s'. merge_symbol api_package_name base group_id (symbol, relative_doc_url) s = Inr s'
       \<and> doc_symbols s' (api_package_name @ ''.'' @ group original_symbol @ ''.'' @ symbol)
           = Some original_symbol
       \<and> doc_symbols s' (group original_symbol @ ''.'' @ symbol)
           = doc_symbols s (group original_symbol @ ''.'' @ symbol)"
  using assms composite_name_differs [of "group original_symbol" symbol]
    composite_name_differs [of api_package_name "group original_symbol @ ''.'' @ symbol"]
    composite_name_differs [of "api_package_name @ ''.'' @ group original_symbol" symbol]
  by (simp add: merge_symbol_def rename_on_collision_def Let_def)

text \<open>
  C10 (composite names are stored unchecked). Under rule A (lines 227 to 229) and under
  the default rule (lines 243 to 245) the new item is stored under the composite name
  whatever that name maps to: after \<open>libB\<close> and \<open>libC\<close>, merging the label \<open>bind\<close> of
  \<open>libA\<close> replaces the item of \<open>libC\<close> under \<open>label.bind\<close>; after \<open>libB\<close> and a function
  of \<open>libA\<close>, merging a method \<open>bind\<close> of \<open>libA\<close> replaces the function under
  \<open>libA.bind\<close>. Only the second rule (lines 231 to 237) looks at the renamed symbols:
  when \<open>kind.name\<close> is one of them, the old item goes under \<open>package.kind.name\<close> and the
  entry under \<open>kind.name\<close> stays as it is.
\<close>

theorem composite_name_clobbering:
  "(doc_symbols merged_libB_libC ''label.bind'' = Some libC_bind
    \<and> (\<exists>s'. merge_symbol ''libA'' ''https://a.example/'' ''std:label''
               (''bind'', ''usage.html#bind'') merged_libB_libC = Inr s'
          \<and> doc_symbols s' ''label.bind'' = Some libA_label_bind)
    \<and> libA_label_bind \<noteq> libC_bind)
   \<and> (doc_symbols merged_libB_libA ''libA.bind'' = Some libA_function_bind
    \<and> (\<exists>s'. merge_symbol ''libA'' ''https://a.example/'' ''py:method''
               (''bind'', ''classes.html#Socket.bind'') merged_libB_libA = Inr s'
          \<and> doc_symbols s' ''libA.bind'' = Some libA_method_bind)
    \<and> libA_method_bind \<noteq> libA_function_bind)
   \<and> (CHR ''/'' \<notin> set symbol \<longrightarrow>
      subscript (str_split CHR '':'' group_id) 1 = Inr group_name \<longrightarrow>
      group_name \<notin> set FORCE_PREFIX_GROUPS \<longrightarrow>
      doc_symbols s symbol = Some original_symbol \<longrightarrow>
      group original_symbol \<in> set FORCE_PREFIX_GROUPS \<longrightarrow>
      group original_symbol @ ''.'' @ symbol \<in> renamed_symbols s \<longrightarrow>
      (\<exists>s'. merge_symbol api_package_name base group_id (symbol, relative_doc_url) s = Inr s'
         \<and> doc_symbols s' (api_package_name @ ''.'' @ group original_symbol @ ''.'' @ symbol)
             = Some original_symbol
         \<and> doc_symbols s' (group original_symbol @ ''.'' @ symbol)
             = doc_symbols s (group original_symbol @ ''.'' @ symbol)))"
proof (intro conjI impI)
  show "doc_symbols merged_libB_libC ''label.bind'' = Some libC_bind"
    by (simp add: merged_libB_libC_table)
  show "\<exists>s'. merge_symbol ''libA'' ''https://a.example/'' ''std:label''
               (''bind'', ''usage.html#bind'') merged_libB_libC = Inr s'
          \<and> doc_symbols s' ''label.bind'' = Some libA_label_bind"
    by (simp add: merge_symbol_def rename_on_collision_def subscript_def
      item_of_simps merged_libB_libC_table FORCE_PREFIX_GROUPS_def Let_def)
  show "libA_label_bind \<noteq> libC_bind"
    by (simp add: libA_label_bind_def libC_bind_def)
  show "doc_symbols merged_libB_libA ''libA.bind'' = Some libA_function_bind"
    by (simp add: merged_libB_libA_table)
  show "\<exists>s'. merge_symbol ''libA'' ''https://a.example/'' ''py:method''
               (''bind'', ''classes.html#Socket.bind'') merged_libB_libA = Inr s'
          \<and> doc_symbols s' ''libA.bind'' = Some libA_method_bind"
    by (simp add: merge_symbol_def rename_on_collision_def subscript_def
      item_of_simps merged_libB_libA_table FORCE_PREFIX_GROUPS_def PRIORITY_PACKAGES_def Let_def
      libB_bind_def)
  show "libA_method_bind \<noteq> libA_function_bind"
    by (simp add: libA_method_bind_def libA_function_bind_def)
next
  assume "CHR ''/'' \<notin> set symbol"
    "subscript (str_split CHR '':'' group_id) 1 = Inr group_name"
    "group_name \<notin> set FORCE_PREFIX_GROUPS"
    "doc_symbols s symbol = Some original_symbol"
    "group original_symbol \<in> set FORCE_PREFIX_GROUPS"
    "group original_symbol @ ''.'' @ symbol \<in> renamed_symbols s"
  then show "\<exists>s'. merge_symbol api_package_name base group_id (symbol, relative_doc_url) s = Inr s'
         \<and> doc_symbols s' (api_package_name @ ''.'' @ group original_symbol @ ''.'' @ symbol)
             = Some original_symbol
         \<and> doc_symbols s' (group original_symbol @ ''.'' @ symbol)
             = doc_symbols s (group original_symbol @ ''.'' @ symbol)"
    by (rule rule_B_keeps_alternate)
qed

theorem composite_name_clobbering_witness:
  "CHR ''/'' \<notin> set ''bind''
   \<and> subscript (str_split CHR '':'' ''py:function'') 1 = Inr ''function''
   \<and> ''function'' \<notin> set FORCE_PREFIX_GROUPS
   \<and> doc_symbols label_first ''bind'' = Some libC_bind
   \<and> group libC_bind \<in> set FORCE_PREFIX_GROUPS
   \<and> group libC_bind @ ''.'' @ ''bind'' \<in> renamed_symbols label_first
   \<and> (\<exists>s'. merge_symbol ''libD'' ''https://d.example/'' ''py:function''
               (''bind'', ''d.html#bind'') label_first = Inr s'
          \<and> doc_symbols s' ''libD.label.bind'' = Some libC_bind
          \<and> doc_symbols s' ''label.bind'' = Some libA_label_bind)"
proof -
  have h1: "CHR ''/'' \<notin> set ''bind''" by simp
  have h2: "subscript (str_split CHR '':'' ''py:function'') 1 = Inr ''function''"
    by (simp add: subscript_def)
  have h3: "''function'' \<notin> set FORCE_PREFIX_GROUPS" by (simp add: FORCE_PREFIX_GROUPS_def)
  have h4: "doc_symbols label_first ''bind'' = Some libC_bind"
    by (simp add: label_first_def)
  have h5: "group libC_bind \<in> set FORCE_PREFIX_GROUPS"
    by (simp add: libC_bind_def FORCE_PREFIX_GROUPS_def)
  have h6: "group libC_bind @ ''.'' @ ''bind'' \<in> renamed_symbols label_first"
    by (simp add: libC_bind_def label_first_def)
  have g: "group libC_bind = ''label''" by (simp add: libC_bind_def)
  have old: "doc_symbols label_first ''label.bind'' = Some libA_label_bind"
    by (simp add: label_first_def)
  from composite_name_clobbering [where symbol = "''bind''" and group_id = "''py:function''"
      and group_name = "''function''" and s = label_first and original_symbol = libC_bind
      and api_package_name = "''libD''" and base = "''https://d.example/''"
      and relative_doc_url = "''d.html#bind''"]
  have "\<exists>s'. merge_symbol ''libD'' ''https://d.example/'' ''py:function''
               (''bind'', ''d.html#bind'') label_first = Inr s'
          \<and> doc_symbols s' (''libD'' @ ''.'' @ group libC_bind @ ''.'' @ ''bind'') = Some libC_bind
          \<and> doc_symbols s' (group libC_bind @ ''.'' @ ''bind'')
              = doc_symbols label_first (group libC_bind @ ''.'' @ ''bind'')"
    using h1 h2 h3 h4 h5 h6 by blast
  then show ?thesis using h1 h2 h3 h4 h5 h6 old by (simp add: g)
qed

section \<open>The parse queue on concrete schedules\<close>

lemma url_a: "url item_a = ''https://lib.example/api.html''"
  by (simp add: url_def item_a_def)
lemma url_b: "url item_b = ''https://lib.example/api.html''"
  by (simp add: url_def item_b_def)
lemma a_neq_b: "item_a \<noteq> item_b" "item_b \<noteq> item_a"
  by (simp_all add: item_a_def item_b_def)

lemma page_a_eq: "page_a = init_parser\<lparr>page_symbols := [''https://lib.example/api.html'' \<mapsto> 0],
    list_store := (\<lambda>_. [])(0 := [item_a]), next_list := Suc 0\<rparr>"
  by (simp add: page_a_def add_item_def init_parser_def url_a)

lemma fetched_a_eq: "fetched_a = init_parser\<lparr>queue := [(item_a, ''page'')],
    page_symbols := Map.empty,
    list_store := (\<lambda>_. [])(0 := [item_a]), next_list := Suc 0,
    item_futures := [(item_a, Pending)],
    parse_task := Some \<lparr>pc = NotStarted, must_cancel = False\<rparr>,
    http_requests := [''https://lib.example/api.html'']\<rparr>"
  by (simp add: fetched_a_def page_a_eq get_markdown_request_def get_markdown_response_def
      get_markdown_tail_def move_to_front_def init_parser_def url_a Let_def)

lemma parsed_a_eq: "parsed_a = init_parser\<lparr>
    list_store := (\<lambda>_. [])(0 := [item_a]), next_list := Suc 0,
    item_futures := [(item_a, Resolved ''a'')],
    http_requests := [''https://lib.example/api.html''],
    extractor_calls := [item_a]\<rparr>"
  by (simp add: parsed_a_def fetched_a_eq worker_step_def parse_loop_def init_parser_def
      extractor_def Let_def item_a_def)

text \<open>
  \<^verbatim>\<open>_move_to_front\<close> in general: an item of the queue ends up last, where \<^verbatim>\<open>pop()\<close>
  takes from, and the queue keeps its elements; an item that is not in the queue makes
  it raise, and so does \<^verbatim>\<open>get_markdown\<close> for an item that is neither queued nor on a
  pending page.
\<close>

lemma queue_index_Some:
  "queue_index item q = Some i \<Longrightarrow> i < length q \<and> fst (q ! i) = item"
proof (induction q arbitrary: i)
  case Nil
  then show ?case by simp
next
  case (Cons x q)
  then show ?case by (cases "fst x = item") auto
qed

lemma queue_index_None: "queue_index item q = None \<longleftrightarrow> item \<notin> fst ` set q"
  by (induction q) auto

lemma move_to_front_present:
  assumes "item \<in> fst ` set (queue p)"
  shows "\<exists>p'. move_to_front item p = Inr p' \<and> fst (last (queue p')) = item
           \<and> length (queue p') = length (queue p) \<and> set (queue p') = set (queue p)"
proof -
  from assms obtain i where i: "queue_index item (queue p) = Some i"
    using queue_index_None [of item "queue p"] by (cases "queue_index item (queue p)") auto
  then have lt: "i < length (queue p)" and it: "fst (queue p ! i) = item"
    using queue_index_Some by blast+
  have "set (queue p) = set (take i (queue p) @ queue p ! i # drop (Suc i) (queue p))"
    by (rule arg_cong [where f = set], rule id_take_nth_drop [OF lt])
  then have "set (take i (queue p) @ drop (Suc i) (queue p) @ [queue p ! i]) = set (queue p)"
    by auto
  with i lt it show ?thesis by (simp add: move_to_front_def)
qed

lemma move_to_front_missing:
  "item \<notin> fst ` set (queue p) \<Longrightarrow> move_to_front item p = Inl ValueError"
  using queue_index_None [of item "queue p"] by (simp add: move_to_front_def)

lemma get_markdown_request_not_queued:
  "page_symbols p (url doc_item) = None \<Longrightarrow> doc_item \<notin> fst ` set (queue p) \<Longrightarrow>
   get_markdown_request doc_item p = (Raised ValueError, p)"
  by (simp add: get_markdown_request_def get_markdown_tail_def move_to_front_missing)

text \<open>
  C3 (reprioritization of an item that is not queued). After \<open>item_a\<close> has been fetched
  and parsed, the queue is empty, the page is no longer pending and the future of
  \<open>item_a\<close> holds its markdown. A further \<^verbatim>\<open>get_markdown(item_a)\<close> reaches
  \<^verbatim>\<open>_move_to_front\<close>, where \<^verbatim>\<open>self._queue.index(item)\<close> raises ValueError: the call
  raises instead of going on to the future.
\<close>

theorem reprioritize_parsed_item_raises:
  "queue parsed_a = [] \<and> page_symbols parsed_a (url item_a) = None
   \<and> map_of (item_futures parsed_a) item_a = Some (Resolved ''a'')
   \<and> get_markdown_request item_a parsed_a = (Raised ValueError, parsed_a)"
  by (simp add: parsed_a_eq get_markdown_request_def get_markdown_tail_def move_to_front_def
      init_parser_def url_a)

lemma page_a_b_eq: "page_a_b = init_parser\<lparr>page_symbols := [''https://lib.example/api.html'' \<mapsto> 0],
    list_store := (\<lambda>_. [])(0 := [item_a, item_b]), next_list := Suc 0\<rparr>"
  by (simp add: page_a_b_def add_item_def init_parser_def url_a url_b)

lemma requested_a_b_eq: "requested_a_b = page_a_b\<lparr>http_requests :=
    [''https://lib.example/api.html'', ''https://lib.example/api.html'']\<rparr>"
  by (simp add: requested_a_b_def page_a_b_eq get_markdown_request_def init_parser_def url_a url_b)

lemma answered_a_eq: "answered_a = init_parser\<lparr>queue := [(item_b, ''page''), (item_a, ''page'')],
    page_symbols := Map.empty,
    list_store := (\<lambda>_. [])(0 := [item_a, item_b]), next_list := Suc 0,
    item_futures := [(item_a, Pending)],
    parse_task := Some \<lparr>pc = NotStarted, must_cancel = False\<rparr>,
    http_requests := [''https://lib.example/api.html'', ''https://lib.example/api.html'']\<rparr>"
  by (simp add: answered_a_def requested_a_b_eq page_a_b_eq get_markdown_response_def
      get_markdown_tail_def move_to_front_def init_parser_def url_a Let_def a_neq_b)

text \<open>
  A request leaves \<^verbatim>\<open>_page_symbols\<close> as it is, so any request for the same page that
  comes before the page has arrived starts an HTTP request of its own.
\<close>

lemma request_while_pending_fetches_again:
  "page_symbols p (url doc_item) = Some r \<Longrightarrow> url other = url doc_item \<Longrightarrow>
   fst (get_markdown_request doc_item p) = AwaitResponse r
   \<and> fst (get_markdown_request other (snd (get_markdown_request doc_item p))) = AwaitResponse r
   \<and> http_requests (snd (get_markdown_request other (snd (get_markdown_request doc_item p))))
       = http_requests p @ [url doc_item, url doc_item]"
  by (simp add: get_markdown_request_def)

text \<open>
  C6 (page batching). \<open>item_a\<close> and \<open>item_b\<close> are on one page that has not been
  fetched. The request for \<open>item_a\<close> starts an HTTP request and waits; the key of the
  page is deleted only after the page has arrived (line 104), so the request for
  \<open>item_b\<close> that comes in the meantime finds the page pending as well and starts a
  second HTTP request for the same URL. When both pages have arrived, the first call
  goes on to its future and the second raises KeyError at line 104.
\<close>

theorem page_batching_second_request_fetches:
  "fst (get_markdown_request item_a page_a_b) = AwaitResponse 0
   \<and> fst (get_markdown_request item_b (snd (get_markdown_request item_a page_a_b))) = AwaitResponse 0
   \<and> url item_b = url item_a
   \<and> http_requests requested_a_b = [url item_a, url item_a]
   \<and> fst (get_markdown_response item_a 0 ''page'' requested_a_b) = AwaitFuture
   \<and> fst (get_markdown_response item_b 0 ''page'' answered_a) = Raised KeyError"
proof -
  have "fst (get_markdown_request item_a page_a_b) = AwaitResponse 0"
    by (simp add: page_a_b_eq get_markdown_request_def init_parser_def url_a)
  moreover have "fst (get_markdown_request item_b (snd (get_markdown_request item_a page_a_b)))
      = AwaitResponse 0"
    by (simp add: page_a_b_eq get_markdown_request_def init_parser_def url_a url_b)
  moreover have "url item_b = url item_a" by (simp add: url_a url_b)
  moreover have "http_requests requested_a_b = [url item_a, url item_a]"
    by (simp add: requested_a_b_eq url_a)
  moreover have "fst (get_markdown_response item_a 0 ''page'' requested_a_b) = AwaitFuture"
    by (simp add: requested_a_b_eq page_a_b_eq get_markdown_response_def
      get_markdown_tail_def move_to_front_def init_parser_def url_a Let_def a_neq_b)
  moreover have "fst (get_markdown_response item_b 0 ''page'' answered_a) = Raised KeyError"
    by (simp add: answered_a_eq get_markdown_response_def init_parser_def url_b Let_def)
  ultimately show ?thesis by simp
qed

lemma requested_twice_eq: "requested_twice = page_a\<lparr>http_requests :=
    [''https://lib.example/api.html'', ''https://lib.example/api.html'']\<rparr>"
  by (simp add: requested_twice_def page_a_eq get_markdown_request_def init_parser_def url_a)

lemma answered_once_eq: "snd (get_markdown_response item_a 0 ''page'' requested_twice) =
  init_parser\<lparr>queue := [(item_a, ''page'')],
    page_symbols := Map.empty,
    list_store := (\<lambda>_. [])(0 := [item_a]), next_list := Suc 0,
    item_futures := [(item_a, Pending)],
    parse_task := Some \<lparr>pc = NotStarted, must_cancel = False\<rparr>,
    http_requests := [''https://lib.example/api.html'', ''https://lib.example/api.html'']\<rparr>"
  by (simp add: requested_twice_eq page_a_eq get_markdown_response_def
      get_markdown_tail_def move_to_front_def init_parser_def url_a Let_def)

lemma answered_twice_eq: "answered_twice =
  init_parser\<lparr>queue := [(item_a, ''page''), (item_a, ''page'')],
    page_symbols := Map.empty,
    list_store := (\<lambda>_. [])(0 := [item_a]), next_list := Suc 0,
    item_futures := [(item_a, Pending)],
    parse_task := Some \<lparr>pc = NotStarted, must_cancel = False\<rparr>,
    http_requests := [''https://lib.example/api.html'', ''https://lib.example/api.html'']\<rparr>"
  unfolding answered_twice_def answered_once_eq
  by (simp add: get_markdown_response_def init_parser_def url_a Let_def)

lemma drained_twice_eq: "drained_twice =
  init_parser\<lparr>
    list_store := (\<lambda>_. [])(0 := [item_a]), next_list := Suc 0,
    item_futures := [(item_a, Resolved ''a'')],
    http_requests := [''https://lib.example/api.html'', ''https://lib.example/api.html''],
    extractor_calls := [item_a, item_a]\<rparr>"
  by (simp add: drained_twice_def answered_twice_eq worker_step_def parse_loop_def init_parser_def
      extractor_def Let_def item_a_def)

text \<open>
  C7 (single flight). Two callers ask for \<open>item_a\<close>, the second before the page of the
  first has arrived. Both fetch the page; both extend the queue with \<open>item_a\<close> before
  the second raises KeyError. There is one future for \<open>item_a\<close>, but the parse task
  hands \<open>item_a\<close> to the extractor twice, and ends on the InvalidStateError of the
  second \<^verbatim>\<open>set_result\<close>.
\<close>

theorem single_flight_two_extractions:
  "fst (get_markdown_request item_a page_a) = AwaitResponse 0
   \<and> fst (get_markdown_request item_a (snd (get_markdown_request item_a page_a))) = AwaitResponse 0
   \<and> fst (get_markdown_response item_a 0 ''page'' requested_twice) = AwaitFuture
   \<and> fst (get_markdown_response item_a 0 ''page''
            (snd (get_markdown_response item_a 0 ''page'' requested_twice))) = Raised KeyError
   \<and> queue answered_twice = [(item_a, ''page''), (item_a, ''page'')]
   \<and> item_futures answered_twice = [(item_a, Pending)]
   \<and> extractor_calls drained_twice = [item_a, item_a]
   \<and> parse_task drained_twice = None"
proof -
  have "fst (get_markdown_request item_a page_a) = AwaitResponse 0"
    by (simp add: page_a_eq get_markdown_request_def init_parser_def url_a)
  moreover have "fst (get_markdown_request item_a (snd (get_markdown_request item_a page_a)))
      = AwaitResponse 0"
    by (simp add: page_a_eq get_markdown_request_def init_parser_def url_a)
  moreover have "fst (get_markdown_response item_a 0 ''page'' requested_twice) = AwaitFuture"
    by (simp add: requested_twice_eq page_a_eq get_markdown_response_def
      get_markdown_tail_def move_to_front_def init_parser_def url_a Let_def)
  moreover have "fst (get_markdown_response item_a 0 ''page''
            (snd (get_markdown_response item_a 0 ''page'' requested_twice))) = Raised KeyError"
    unfolding answered_once_eq
    by (simp add: get_markdown_response_def init_parser_def url_a Let_def)
  ultimately show ?thesis
    by (simp add: answered_twice_eq drained_twice_eq init_parser_def)
qed

lemma readded_a_eq: "readded_a = init_parser\<lparr>
    page_symbols := [''https://lib.example/api.html'' \<mapsto> 1],
    list_store := (\<lambda>_. [])(0 := [item_a], 1 := [item_a]), next_list := 2,
    item_futures := [(item_a, Resolved ''a'')],
    http_requests := [''https://lib.example/api.html''],
    extractor_calls := [item_a]\<rparr>"
  by (simp add: readded_a_def parsed_a_eq add_item_def init_parser_def url_a numeral_2_eq_2)

lemma refetched_a_eq: "refetched_a = init_parser\<lparr>
    queue := [(item_a, ''page'')],
    list_store := (\<lambda>_. [])(0 := [item_a], 1 := [item_a]), next_list := 2,
    item_futures := [(item_a, Resolved ''a'')],
    parse_task := Some \<lparr>pc = NotStarted, must_cancel = False\<rparr>,
    http_requests := [''https://lib.example/api.html'', ''https://lib.example/api.html''],
    extractor_calls := [item_a]\<rparr>"
  by (simp add: refetched_a_def readded_a_eq get_markdown_request_def get_markdown_response_def
      get_markdown_tail_def move_to_front_def init_parser_def url_a Let_def)

lemma clear_refetched_a: "clear refetched_a = (Cleared, init_parser\<lparr>
    list_store := (\<lambda>_. [])(0 := [item_a], 1 := [item_a]), next_list := 2,
    parse_task := Some \<lparr>pc = NotStarted, must_cancel = True\<rparr>,
    http_requests := [''https://lib.example/api.html'', ''https://lib.example/api.html''],
    extractor_calls := [item_a]\<rparr>)"
  by (simp add: refetched_a_eq clear_def clear_from_def clear_finish_def cancel_def
      init_parser_def)

lemma stale_handle_eq: "stale_handle = init_parser\<lparr>
    list_store := (\<lambda>_. [])(0 := [item_a], 1 := [item_a]), next_list := 2,
    parse_task := Some \<lparr>pc = Finished, must_cancel = True\<rparr>,
    http_requests := [''https://lib.example/api.html'', ''https://lib.example/api.html''],
    extractor_calls := [item_a]\<rparr>"
  by (simp add: stale_handle_def cleared_a_def clear_refetched_a worker_step_def init_parser_def)

lemma fetched_b_eq: "fetched_b = init_parser\<lparr>
    queue := [(item_b, ''page'')],
    list_store := (\<lambda>_. [])(0 := [item_a], 1 := [item_a], 2 := [item_b]), next_list := 3,
    item_futures := [(item_b, Pending)],
    parse_task := Some \<lparr>pc = Finished, must_cancel = True\<rparr>,
    http_requests := [''https://lib.example/api.html'', ''https://lib.example/api.html'',
                      ''https://lib.example/api.html''],
    extractor_calls := [item_a]\<rparr>"
  by (simp add: fetched_b_def stale_handle_eq add_item_def get_markdown_request_def
      get_markdown_response_def get_markdown_tail_def move_to_front_def init_parser_def url_b
      Let_def eval_nat_numeral)

lemma cancel_idem: "cancel (cancel t) = cancel t"
  by (simp add: cancel_def split: worker_pc.splits)

lemma map_option_cancel_idem:
  "map_option cancel (map_option cancel h) = map_option cancel h"
  by (cases h) (simp_all add: cancel_idem)

lemma clear_finish_twice: "clear_finish (clear_finish p) = clear_finish p"
  by (simp add: clear_finish_def map_option_cancel_idem)

lemma clear_of_cleared: "clear (clear_finish p) = (Cleared, clear_finish p)"
proof -
  have e: "item_futures (clear_finish p) = []" by (simp add: clear_finish_def)
  have "clear_from 0 0 (clear_finish p) = (Cleared, clear_finish (clear_finish p))"
    unfolding clear_from_def e by simp
  then show ?thesis
    unfolding clear_def e clear_finish_twice by simp
qed

lemma clear_from_Cleared: "clear_from i n p = (Cleared, p1) \<Longrightarrow> p1 = clear_finish p"
  by (simp add: clear_from_def split: if_splits option.splits)

lemma clear_resume_Cleared: "clear_resume j n p = (Cleared, p1) \<Longrightarrow> p1 = clear_finish p"
  by (simp add: clear_resume_def clear_from_Cleared split: if_splits)

text \<open>
  A suspended \<^verbatim>\<open>clear\<close> whose future has its result raises RuntimeError when the dict
  has got another entry in the meantime, and changes nothing.
\<close>

lemma clear_resume_size_changed:
  "j < length (item_futures p) \<Longrightarrow> snd (item_futures p ! j) \<noteq> Pending \<Longrightarrow>
   length (item_futures p) \<noteq> n \<Longrightarrow> clear_resume j n p = (ClearRaised RuntimeError, p)"
  by (simp add: clear_resume_def clear_from_def)

lemma symbol_id_b: "symbol_id item_b = ''b''"
  by (simp add: item_b_def)

lemma stale_request_eq:
  "snd (get_markdown_response item_a 0 ''page''
     (snd (get_markdown_request item_a (add_item item_b init_parser)))) =
   init_parser\<lparr>queue := [(item_b, ''page'')],
     list_store := (\<lambda>_. [])(0 := [item_b]), next_list := Suc 0,
     parse_task := Some \<lparr>pc = NotStarted, must_cancel = False\<rparr>,
     http_requests := [''https://lib.example/api.html'']\<rparr>"
  by (simp add: add_item_def get_markdown_request_def get_markdown_response_def
      get_markdown_tail_def move_to_front_def init_parser_def url_a url_b a_neq_b Let_def)

lemma busy_worker_eq: "busy_worker = init_parser\<lparr>
    list_store := (\<lambda>_. [])(0 := [item_b]), next_list := Suc 0,
    parse_task := Some \<lparr>pc = AwaitCacheSet item_b ''b'', must_cancel = False\<rparr>,
    http_requests := [''https://lib.example/api.html''],
    extractor_calls := [item_b]\<rparr>"
  unfolding busy_worker_def stale_request_eq
  by (simp add: worker_step_def parse_loop_def init_parser_def extractor_def symbol_id_b Let_def)

lemma resolved_a_eq: "resolved_a = init_parser\<lparr>
    list_store := (\<lambda>_. [])(0 := [item_a]), next_list := Suc 0,
    item_futures := [(item_a, Resolved ''a'')],
    parse_task := Some \<lparr>pc = AwaitSleep, must_cancel = False\<rparr>,
    http_requests := [''https://lib.example/api.html''],
    extractor_calls := [item_a]\<rparr>"
  by (simp add: resolved_a_def fetched_a_eq worker_step_def parse_loop_def init_parser_def
      extractor_def Let_def item_a_def)

text \<open>
  C8, as the code has it. On a parser whose queue, pending pages and futures are empty,
  \<^verbatim>\<open>clear\<close> runs to its end at once and returns the state with those three still
  empty; it also sends \<^verbatim>\<open>cancel()\<close> to a parse task that exists (lines 159 and 160),
  and when there is no task the state is the same as before. And whenever a \<^verbatim>\<open>clear\<close> runs to its end, at once or after it has
  waited for futures, a \<^verbatim>\<open>clear\<close> right after it runs to its end at once and returns
  the state as the first one left it.
\<close>

theorem clear_idempotent:
  "(queue p = [] \<and> page_symbols p = Map.empty \<and> item_futures p = [] \<longrightarrow>
      clear p = (Cleared, p\<lparr>parse_task := map_option cancel (parse_task p)\<rparr>)
      \<and> (parse_task p = None \<longrightarrow> clear p = (Cleared, p)))
   \<and> (clear p = (Cleared, p1) \<longrightarrow> clear p1 = (Cleared, p1))
   \<and> (clear_resume j n p = (Cleared, p2) \<longrightarrow> clear p2 = (Cleared, p2))"
proof (intro conjI impI)
  assume e: "queue p = [] \<and> page_symbols p = Map.empty \<and> item_futures p = []"
  then show c: "clear p = (Cleared, p\<lparr>parse_task := map_option cancel (parse_task p)\<rparr>)"
    by (simp add: clear_def clear_from_def clear_finish_def)
  assume "parse_task p = None"
  with c show "clear p = (Cleared, p)" by simp
next
  assume "clear p = (Cleared, p1)"
  then have "p1 = clear_finish p"
    unfolding clear_def by (rule clear_from_Cleared)
  then show "clear p1 = (Cleared, p1)" by (simp add: clear_of_cleared)
next
  assume "clear_resume j n p = (Cleared, p2)"
  then have "p2 = clear_finish p" by (rule clear_resume_Cleared)
  then show "clear p2 = (Cleared, p2)" by (simp add: clear_of_cleared)
qed

theorem clear_idempotent_witness:
  "queue init_parser = [] \<and> page_symbols init_parser = Map.empty
   \<and> item_futures init_parser = [] \<and> parse_task init_parser = None
   \<and> clear init_parser = (Cleared, init_parser)
   \<and> queue busy_worker = [] \<and> page_symbols busy_worker = Map.empty
   \<and> item_futures busy_worker = []
   \<and> clear busy_worker =
       (Cleared, busy_worker\<lparr>parse_task :=
          Some \<lparr>pc = AwaitCacheSet item_b ''b'', must_cancel = True\<rparr>\<rparr>)
   \<and> queue refetched_a = [(item_a, ''page'')]
   \<and> clear refetched_a = (Cleared, cleared_a)
   \<and> clear cleared_a = (Cleared, cleared_a)
   \<and> clear fetched_a = (AwaitItemFuture 0 1, fetched_a)
   \<and> clear_resume 0 1 resolved_a = (Cleared, cleared_after_wait)
   \<and> queue cleared_after_wait = [] \<and> item_futures cleared_after_wait = []
   \<and> clear cleared_after_wait = (Cleared, cleared_after_wait)"
proof -
  have e: "queue init_parser = [] \<and> page_symbols init_parser = Map.empty
      \<and> item_futures init_parser = []"
    by (simp add: init_parser_def)
  have n: "parse_task init_parser = None" by (simp add: init_parser_def)
  have eb: "queue busy_worker = [] \<and> page_symbols busy_worker = Map.empty
      \<and> item_futures busy_worker = []"
    by (simp add: busy_worker_eq init_parser_def)
  have tb: "map_option cancel (parse_task busy_worker)
      = Some \<lparr>pc = AwaitCacheSet item_b ''b'', must_cancel = True\<rparr>"
    by (simp add: busy_worker_eq init_parser_def cancel_def)
  have c: "clear refetched_a = (Cleared, cleared_a)"
    by (simp add: cleared_a_def clear_refetched_a)
  have q: "queue refetched_a = [(item_a, ''page'')]"
    by (simp add: refetched_a_eq init_parser_def)
  have w: "clear fetched_a = (AwaitItemFuture 0 1, fetched_a)"
    by (simp add: fetched_a_eq clear_def clear_from_def init_parser_def)
  have r: "clear_resume 0 1 resolved_a = (Cleared, cleared_after_wait)"
    by (simp add: cleared_after_wait_def resolved_a_eq clear_resume_def clear_from_def
        init_parser_def)
  have f: "queue cleared_after_wait = [] \<and> item_futures cleared_after_wait = []"
    unfolding clear_resume_Cleared [OF r] by (simp add: clear_finish_def)
  from clear_idempotent [of init_parser] e n have "clear init_parser = (Cleared, init_parser)"
    by blast
  moreover from clear_idempotent [of busy_worker] eb tb
  have "clear busy_worker =
       (Cleared, busy_worker\<lparr>parse_task :=
          Some \<lparr>pc = AwaitCacheSet item_b ''b'', must_cancel = True\<rparr>\<rparr>)"
    by simp
  moreover from clear_idempotent [of refetched_a cleared_a] c
  have "clear cleared_a = (Cleared, cleared_a)" by blast
  moreover from clear_idempotent [where p = resolved_a and j = 0 and n = 1
      and ?p2.0 = cleared_after_wait] r
  have "clear cleared_after_wait = (Cleared, cleared_after_wait)" by blast
  ultimately show ?thesis using e n eb c q w r f by simp
qed

text \<open>
  C8 as claimed fails: \<open>busy_worker\<close> has an empty queue, no pending page and no future,
  and \<^verbatim>\<open>clear\<close> does not leave it as it is: the parse task that is suspended in
  \<^verbatim>\<open>doc_cache.set\<close> has been cancelled.
\<close>

theorem clear_cancels_worker_of_empty_cache:
  "queue busy_worker = [] \<and> page_symbols busy_worker = Map.empty
   \<and> item_futures busy_worker = []
   \<and> parse_task busy_worker = Some \<lparr>pc = AwaitCacheSet item_b ''b'', must_cancel = False\<rparr>
   \<and> fst (clear busy_worker) = Cleared
   \<and> parse_task (snd (clear busy_worker))
       = Some \<lparr>pc = AwaitCacheSet item_b ''b'', must_cancel = True\<rparr>
   \<and> clear busy_worker \<noteq> (Cleared, busy_worker)"
  by (simp add: busy_worker_eq clear_def clear_from_def clear_finish_def cancel_def
      init_parser_def)

text \<open>
  A parse task that is suspended at one of its awaits, or that starts without having
  been cancelled, either goes on to its next await or ends with \<^verbatim>\<open>_parse_task\<close> reset
  to None: line 135 runs on every way out of the body.
\<close>

lemma worker_step_started_resets_handle:
  assumes "parse_task p = Some t"
    and "pc t = AwaitSleep \<or> (\<exists>item markdown. pc t = AwaitCacheSet item markdown)
         \<or> (pc t = NotStarted \<and> \<not> must_cancel t)"
  shows "parse_task (worker_step get_symbol_markdown cache_ok p) = None
         \<or> (\<exists>t'. parse_task (worker_step get_symbol_markdown cache_ok p) = Some t'
               \<and> (pc t' = AwaitSleep \<or> (\<exists>item markdown. pc t' = AwaitCacheSet item markdown)))"
proof -
  have loop: "parse_task (parse_loop get_symbol_markdown p) = None
      \<or> (\<exists>t'. parse_task (parse_loop get_symbol_markdown p) = Some t'
            \<and> (pc t' = AwaitSleep \<or> (\<exists>item markdown. pc t' = AwaitCacheSet item markdown)))"
    by (cases "last (queue p)"; cases "get_symbol_markdown (snd (last (queue p))) (fst (last (queue p)))")
       (simp_all add: parse_loop_def Let_def)
  from assms(2) consider "pc t = AwaitSleep"
    | item markdown where "pc t = AwaitCacheSet item markdown"
    | "pc t = NotStarted" "\<not> must_cancel t"
    by blast
  then show ?thesis
  proof cases
    case 1
    with assms(1) loop show ?thesis by (simp add: worker_step_def)
  next
    case 2
    with assms(1) show ?thesis
      by (simp add: worker_step_def split: option.splits future.splits)
  next
    case 3
    with assms(1) loop show ?thesis by (simp add: worker_step_def)
  qed
qed

text \<open>
  C9 (the handle of the parse task). \<^verbatim>\<open>clear\<close> cancels a parse task that line 108 has
  created and that has not run yet. Such a task ends without entering the body of
  \<^verbatim>\<open>_parse_queue\<close>, so line 135 does not run and \<^verbatim>\<open>_parse_task\<close> keeps the task that
  is over. The next call that fetches a page queues \<open>item_b\<close>, finds the handle set
  and starts no task: the queue is not empty, nothing runs, and the future of \<open>item_b\<close>
  stays pending.
\<close>

theorem cancelled_before_first_step_keeps_handle:
  "parse_task refetched_a = Some \<lparr>pc = NotStarted, must_cancel = False\<rparr>
   \<and> clear refetched_a = (Cleared, cleared_a)
   \<and> parse_task cleared_a = Some \<lparr>pc = NotStarted, must_cancel = True\<rparr>
   \<and> parse_task stale_handle = Some \<lparr>pc = Finished, must_cancel = True\<rparr>
   \<and> fst (get_markdown_response item_b 2 ''page''
            (snd (get_markdown_request item_b (add_item item_b stale_handle)))) = AwaitFuture
   \<and> queue fetched_b = [(item_b, ''page'')]
   \<and> parse_task fetched_b = Some \<lparr>pc = Finished, must_cancel = True\<rparr>
   \<and> map_of (item_futures fetched_b) item_b = Some Pending
   \<and> worker_step extractor True fetched_b = fetched_b"
proof -
  have "fst (get_markdown_response item_b 2 ''page''
            (snd (get_markdown_request item_b (add_item item_b stale_handle)))) = AwaitFuture"
    by (simp add: stale_handle_eq add_item_def get_markdown_request_def
      get_markdown_response_def get_markdown_tail_def move_to_front_def init_parser_def url_b
      Let_def eval_nat_numeral)
  moreover have "worker_step extractor True fetched_b = fetched_b"
    by (simp add: fetched_b_eq worker_step_def init_parser_def)
  moreover have "clear refetched_a = (Cleared, cleared_a)"
    by (simp add: cleared_a_def clear_refetched_a)
  moreover have "parse_task cleared_a = Some \<lparr>pc = NotStarted, must_cancel = True\<rparr>"
    by (simp add: cleared_a_def clear_refetched_a init_parser_def)
  moreover have "parse_task refetched_a = Some \<lparr>pc = NotStarted, must_cancel = False\<rparr>"
    by (simp add: refetched_a_eq init_parser_def)
  ultimately show ?thesis
    by (simp add: stale_handle_eq fetched_b_eq init_parser_def)
qed

end
